theory Spec2Isabelle
  imports Main
begin

section \<open>Go library functions the package calls\<close>

text \<open>
  Strings and byte slices are lists of bytes (\<open>char\<close>); decoded address bytes are
  natural numbers below 256. Each library function is written out for the arguments the
  package passes to it.
\<close>

text \<open>\<open>strings.Split(s, sep)\<close> and \<open>bytes.Split(s, sep)\<close> for a one-byte separator: a
  string with n separators gives n + 1 pieces, so the result is never empty.\<close>

fun Split :: "char \<Rightarrow> string \<Rightarrow> string list" where
  "Split sep [] = [[]]"
| "Split sep (c # cs) =
     (if c = sep then [] # Split sep cs
      else (case Split sep cs of [] \<Rightarrow> [[c]] | p # ps \<Rightarrow> (c # p) # ps))"

text \<open>\<open>encoding/hex\<close>: the value of one hexadecimal digit, either case.\<close>

definition fromHexChar :: "char \<Rightarrow> nat option" where
  "fromHexChar c =
     (let n = (of_char c :: nat) in
      if 48 \<le> n \<and> n \<le> 57 then Some (n - 48)
      else if 97 \<le> n \<and> n \<le> 102 then Some (n - 87)
      else if 65 \<le> n \<and> n \<le> 70 then Some (n - 55)
      else None)"

text \<open>\<open>hex.DecodeString\<close>: two digits per byte; an odd length or a byte that is not a
  hexadecimal digit is an error (\<open>None\<close>).\<close>

fun DecodeString :: "string \<Rightarrow> nat list option" where
  "DecodeString [] = Some []"
| "DecodeString [c] = None"
| "DecodeString (a # b # cs) =
     (case fromHexChar a of
        None \<Rightarrow> None
      | Some x \<Rightarrow>
          (case fromHexChar b of
             None \<Rightarrow> None
           | Some y \<Rightarrow>
               (case DecodeString cs of
                  None \<Rightarrow> None
                | Some bs \<Rightarrow> Some ((x * 16 + y) # bs))))"

text \<open>
  \<open>strconv.ParseInt("0x" + t, 0, 64)\<close>. With base 0 and at least one byte after the
  prefix the base is 16 and the digits are \<open>t\<close>; with nothing after the prefix the string
  \<open>0x\<close> is read as octal and \<open>x\<close> is no digit. The digit loop skips underscores, stops
  at a byte that is no hexadecimal digit, and reports a range error when the value would
  leave 64 bits. Underscores must each stand between the prefix or a digit and a digit.
  The signed result must be below \<open>2 ^ 63\<close>. Every error is \<open>None\<close>.
\<close>

fun parseDigits :: "string \<Rightarrow> nat \<Rightarrow> nat option" where
  "parseDigits [] n = Some n"
| "parseDigits (c # cs) n =
     (if c = CHR ''_'' then parseDigits cs n
      else (case fromHexChar c of
              None \<Rightarrow> None
            | Some d \<Rightarrow> if 2 ^ 60 \<le> n then None else parseDigits cs (n * 16 + d)))"

fun underscoreOK :: "char \<Rightarrow> string \<Rightarrow> bool" where
  "underscoreOK saw [] = (saw \<noteq> CHR ''_'')"
| "underscoreOK saw (c # cs) =
     (if fromHexChar c \<noteq> None then underscoreOK (CHR ''0'') cs
      else if c = CHR ''_'' then (if saw \<noteq> CHR ''0'' then False else underscoreOK (CHR ''_'') cs)
      else if saw = CHR ''_'' then False
      else underscoreOK (CHR ''!'') cs)"

definition ParseInt :: "string \<Rightarrow> int option" where
  "ParseInt t =
     (if t = [] then None
      else (case parseDigits t 0 of
              None \<Rightarrow> None
            | Some un \<Rightarrow>
                if CHR ''_'' \<in> set t \<and> \<not> underscoreOK (CHR ''0'') t then None
                else if 2 ^ 63 \<le> un then None
                else Some (int un)))"

text \<open>\<open>strconv.Itoa\<close>: the decimal digits, with a minus sign below zero.\<close>

fun formatDec :: "nat \<Rightarrow> string" where
  "formatDec n =
     (if n < 10 then [''0123456789'' ! n]
      else formatDec (n div 10) @ [''0123456789'' ! (n mod 10)])"

declare formatDec.simps [simp del]

definition Itoa :: "int \<Rightarrow> string" where
  "Itoa i = (if i < 0 then CHR ''-'' # formatDec (nat (- i)) else formatDec (nat i))"

text \<open>\<open>net.IP.To4\<close>: a 4-byte address as it is, the last four bytes of a 16-byte
  IPv4-mapped address, and nil (the empty slice) otherwise.\<close>

definition To4 :: "nat list \<Rightarrow> nat list" where
  "To4 ip =
     (if length ip = 4 then ip
      else if length ip = 16 \<and> list_all (\<lambda>b. b = 0) (take 10 ip) \<and> ip ! 10 = 255 \<and> ip ! 11 = 255
      then drop 12 ip
      else [])"

text \<open>Lower-case hexadecimal: \<open>hexString\<close> prints two digits per byte, \<open>appendHex\<close> prints
  a 16-bit group without leading zeros.\<close>

definition hexString :: "nat list \<Rightarrow> string" where
  "hexString b =
     concat (map (\<lambda>x. [''0123456789abcdef'' ! (x div 16), ''0123456789abcdef'' ! (x mod 16)]) b)"

fun appendHex :: "nat \<Rightarrow> string" where
  "appendHex n =
     (if n < 16 then [''0123456789abcdef'' ! n]
      else appendHex (n div 16) @ [''0123456789abcdef'' ! (n mod 16)])"

declare appendHex.simps [simp del]

text \<open>The 16-bit groups of a 16-byte address.\<close>

fun groups :: "nat list \<Rightarrow> nat list" where
  "groups (a # b # rest) = (a * 256 + b) # groups rest"
| "groups _ = []"

text \<open>The longest run of zero groups, the first one among equals, as (start, length);
  length 0 stands for no run yet.\<close>

function longestRun :: "nat list \<Rightarrow> nat \<Rightarrow> nat \<times> nat \<Rightarrow> nat \<times> nat" where
  "longestRun gs i best =
     (if length gs \<le> i then best
      else (let n = length (takeWhile (\<lambda>g. g = 0) (drop i gs)) in
            if 0 < n \<and> snd best < n then longestRun gs (i + n + 1) (i, n)
            else longestRun gs (i + 1) best))"
  by pat_completeness auto
termination
  by (relation "measure (\<lambda>(gs, i, best). length gs - i)") auto

declare longestRun.simps [simp del]

text \<open>Printing the groups, with \<open>::\<close> in place of the chosen run.\<close>

function printGroups :: "nat list \<Rightarrow> nat \<Rightarrow> (nat \<times> nat) option \<Rightarrow> string" where
  "printGroups gs i run =
     (if length gs \<le> i then []
      else (case run of
              None \<Rightarrow>
                (if 0 < i then '':'' else []) @ appendHex (gs ! i) @ printGroups gs (i + 1) run
            | Some (e0, n) \<Rightarrow>
                if i = e0 then
                  (if length gs \<le> i + n then ''::''
                   else ''::'' @ appendHex (gs ! (i + n)) @ printGroups gs (i + n + 1) run)
                else
                  (if 0 < i then '':'' else []) @ appendHex (gs ! i) @ printGroups gs (i + 1) run))"
  by pat_completeness auto
termination
  by (relation "measure (\<lambda>(gs, i, run). length gs - i)") auto

declare printGroups.simps [simp del]

definition formatIPv6 :: "nat list \<Rightarrow> string" where
  "formatIPv6 ip =
     (let gs = groups ip;
          best = longestRun gs 0 (0, 0)
      in printGroups gs 0 (if snd best \<le> 1 then None else Some best))"

text \<open>\<open>net.IP.String\<close>.\<close>

definition IP_String :: "nat list \<Rightarrow> string" where
  "IP_String ip =
     (if length ip = 0 then ''<nil>''
      else if length ip \<noteq> 4 \<and> length ip \<noteq> 16 then ''?'' @ hexString ip
      else if length (To4 ip) = 4 then
        formatDec (To4 ip ! 0) @ ''.'' @ formatDec (To4 ip ! 1) @ ''.'' @
        formatDec (To4 ip ! 2) @ ''.'' @ formatDec (To4 ip ! 3)
      else formatIPv6 ip)"

section \<open>Address decoding (connection\_linux.go)\<close>

text \<open>
  \<open>reverse\<close> swaps the slice in place from both ends. The index \<open>j\<close> starts at
  \<open>len(s) - 1\<close>; for the empty slice that is \<open>-1\<close> in Go and \<open>0\<close> here, and the loop
  does not run in either case.
\<close>

function reverse_loop :: "nat list \<Rightarrow> nat \<Rightarrow> nat \<Rightarrow> nat list" where
  "reverse_loop s i j =
     (if i < j then reverse_loop (s[i := s ! j, j := s ! i]) (i + 1) (j - 1) else s)"
  by pat_completeness auto
termination
  by (relation "measure (\<lambda>(s, i, j). j - i)") auto

declare reverse_loop.simps [simp del]

definition reverse :: "nat list \<Rightarrow> nat list" where
  "reverse s = reverse_loop s 0 (length s - 1)"

text \<open>The three errors of \<open>decodeAddress\<close>, each with the string its message quotes.\<close>

datatype decode_error =
    DoesNotContainPort string
  | InvalidPort string
  | DecodeError string

definition decodeAddress :: "string \<Rightarrow> string \<Rightarrow> decode_error + string" where
  "decodeAddress family src =
     (let t = Split (CHR '':'') src in
      if length t \<noteq> 2 then Inl (DoesNotContainPort src)
      else
        (let addr = t ! 0 in
         case ParseInt (t ! 1) of
           None \<Rightarrow> Inl (InvalidPort src)
         | Some port \<Rightarrow>
             (case DecodeString addr of
                None \<Rightarrow> Inl (DecodeError addr)
              | Some decoded \<Rightarrow>
                  (let ip = (if family = ''inet'' then reverse decoded else [])
                   in Inr (IP_String ip @ '':'' @ Itoa port)))))"

section \<open>Socket tables (connection\_linux.go)\<close>

text \<open>
  \<open>strings.Fields\<close>: the maximal runs of bytes between white space, as
  \<open>unicode.IsSpace\<close> defines it on the runes of the UTF-8 string. \<open>spaceWidth\<close> is the
  number of bytes of the white-space rune that starts with the three bytes given, and 0
  when there is none: tab, line feed, vertical tab, form feed, carriage return and space;
  U+0085 and U+00A0 in two bytes; U+1680, U+2000 to U+200A, U+2028, U+2029, U+202F, U+205F
  and U+3000 in three bytes. The first byte of each of them is no continuation byte of
  UTF-8, so the decoder of Go starts a rune at it whatever precedes. In \<open>fieldsFrom\<close>,
  \<open>w\<close> is the field being read and \<open>skip\<close> counts the bytes of a white-space rune that
  are still to be passed.
\<close>

definition spaceWidth :: "nat \<Rightarrow> nat \<Rightarrow> nat \<Rightarrow> nat" where
  "spaceWidth b0 b1 b2 =
     (if b0 = 9 \<or> b0 = 10 \<or> b0 = 11 \<or> b0 = 12 \<or> b0 = 13 \<or> b0 = 32 then 1
      else if b0 = 0xC2 \<and> (b1 = 0x85 \<or> b1 = 0xA0) then 2
      else if b0 = 0xE1 \<and> b1 = 0x9A \<and> b2 = 0x80 then 3
      else if b0 = 0xE2 \<and> b1 = 0x80 \<and>
              (0x80 \<le> b2 \<and> b2 \<le> 0x8A \<or> b2 = 0xA8 \<or> b2 = 0xA9 \<or> b2 = 0xAF) then 3
      else if b0 = 0xE2 \<and> b1 = 0x81 \<and> b2 = 0x9F then 3
      else if b0 = 0xE3 \<and> b1 = 0x80 \<and> b2 = 0x80 then 3
      else 0)"

fun spaceRune :: "string \<Rightarrow> nat" where
  "spaceRune (c # x # y # rest) = spaceWidth (of_char c) (of_char x) (of_char y)"
| "spaceRune [c, x] = spaceWidth (of_char c) (of_char x) 0"
| "spaceRune [c] = spaceWidth (of_char c) 0 0"
| "spaceRune [] = 0"

fun fieldsFrom :: "string \<Rightarrow> nat \<Rightarrow> string \<Rightarrow> string list" where
  "fieldsFrom w skip [] = (if w = [] then [] else [w])"
| "fieldsFrom w skip (c # cs) =
     (if 0 < skip then fieldsFrom w (skip - 1) cs
      else (case spaceRune (c # cs) of
              0 \<Rightarrow> fieldsFrom (w @ [c]) 0 cs
            | Suc n \<Rightarrow> (if w = [] then fieldsFrom [] n cs else w # fieldsFrom [] n cs)))"

definition Fields :: "string \<Rightarrow> string list" where
  "Fields s = fieldsFrom [] 0 s"

text \<open>\<open>strings.Join\<close>.\<close>

fun Join :: "string list \<Rightarrow> string \<Rightarrow> string" where
  "Join [] sep = []"
| "Join [e] sep = e"
| "Join (e # es) sep = e @ sep @ Join es sep"

text \<open>
  \<open>filepath.Clean\<close> on a slash-separated path: empty and \<open>.\<close> elements go, a \<open>..\<close>
  element removes the element before it when there is one to remove, is kept in a relative
  path otherwise, and is dropped at the root. \<open>filepath.Join\<close> skips leading empty
  elements, joins the rest with slashes and cleans the result.
\<close>

fun cleanElems :: "bool \<Rightarrow> string list \<Rightarrow> string list \<Rightarrow> string list" where
  "cleanElems rooted [] out = out"
| "cleanElems rooted (e # es) out =
     (if e = [] \<or> e = ''.'' then cleanElems rooted es out
      else if e = ''..'' then
        (if out \<noteq> [] \<and> last out \<noteq> ''..'' then cleanElems rooted es (butlast out)
         else if rooted then cleanElems rooted es out
         else cleanElems rooted es (out @ [''..'']))
      else cleanElems rooted es (out @ [e]))"

definition Clean :: "string \<Rightarrow> string" where
  "Clean path =
     (case path of
        [] \<Rightarrow> ''.''
      | c # cs \<Rightarrow>
          (let rooted = (c = CHR ''/'');
               out = cleanElems rooted (Split (CHR ''/'') path) []
           in if rooted then ''/'' @ Join out ''/''
              else if out = [] then ''.''
              else Join out ''/''))"

definition filepath_Join :: "string list \<Rightarrow> string" where
  "filepath_Join elem =
     (case dropWhile (\<lambda>e. e = []) elem of
        [] \<Rightarrow> []
      | e # es \<Rightarrow> Clean (Join (e # es) ''/''))"

text \<open>The record of the root package that the parser fills in (field names as in the
  source, \<open>RemoteAddess\<close> included).\<close>

record Connection =
  Family :: string
  Type :: string
  LocalAddress :: string
  RemoteAddess :: string
  Status :: string

record netConnectionKindType =
  family :: string
  sockType :: string
  filename :: string

definition connectionKindTypes :: "netConnectionKindType list" where
  "connectionKindTypes =
     [\<lparr>family = ''inet'', sockType = ''tcp'', filename = ''tcp''\<rparr>,
      \<lparr>family = ''inet'', sockType = ''udp'', filename = ''udp''\<rparr>]"

definition TCPStatuses :: "string \<rightharpoonup> string" where
  "TCPStatuses =
     map_of
       [(''01'', ''ESTABLISHED''),
        (''02'', ''SYN_SENT''),
        (''03'', ''SYN_RECV''),
        (''04'', ''FIN_WAIT1''),
        (''05'', ''FIN_WAIT2''),
        (''06'', ''TIME_WAIT''),
        (''07'', ''CLOSE''),
        (''08'', ''CLOSE_WAIT''),
        (''09'', ''LAST_ACK''),
        (''0A'', ''LISTEN''),
        (''0B'', ''CLOSING'')]"

text \<open>Lines 81 to 89 of the parser: the status of a row. A key that is not in a Go map
  reads as the empty string.\<close>

definition rowStatus :: "netConnectionKindType \<Rightarrow> string \<Rightarrow> string" where
  "rowStatus kind code =
     (let status = (if sockType kind = ''tcp''
                    then (case TCPStatuses code of None \<Rightarrow> [] | Some s \<Rightarrow> s)
                    else [])
      in if status = [] then ''NONE'' else status)"

text \<open>
  The loop over the lines after the header, with the output slice passed along. The call
  sites of \<open>decodeAddress\<close> in the source pass the field only; the model passes the
  family of the kind descriptor, the one family in scope there.
\<close>

fun processLines :: "netConnectionKindType \<Rightarrow> string list \<Rightarrow> Connection list \<Rightarrow> Connection list" where
  "processLines kind [] out = out"
| "processLines kind (line # rest) out =
     (let l = Fields line in
      if length l < 10 then processLines kind rest out
      else
        (case decodeAddress (family kind) (l ! 1) of
           Inl err \<Rightarrow> processLines kind rest out
         | Inr localAddress \<Rightarrow>
             (case decodeAddress (family kind) (l ! 2) of
                Inl err \<Rightarrow> processLines kind rest out
              | Inr remoteAddess \<Rightarrow>
                  processLines kind rest
                    (out @ [\<lparr>Family = family kind, Type = sockType kind,
                             LocalAddress = localAddress, RemoteAddess = remoteAddess,
                             Status = rowStatus kind (l ! 3)\<rparr>]))))"

text \<open>
  The file system is a function from a path to the error of \<open>ioutil.ReadFile\<close> or the
  contents. Go functions that return a value and an error return a pair here, the error
  \<open>None\<close> for nil.
\<close>

type_synonym io_error = string

type_synonym file_system = "string \<Rightarrow> io_error + string"

datatype conn_error =
    ReadFailed io_error string
  | MultiError "conn_error list"

definition processINET ::
  "file_system \<Rightarrow> string \<Rightarrow> netConnectionKindType \<Rightarrow> Connection list \<times> conn_error option" where
  "processINET fs fname kind =
     (case fs fname of
        Inl err \<Rightarrow> ([], Some (ReadFailed err fname))
      | Inr contents \<Rightarrow>
          (let lines = Split (CHR 0x0A) contents
           in (processLines kind (tl lines) [], None)))"

text \<open>\<open>GetConnections\<close>: the loop over the kinds with the output slice and the collected
  errors passed along; the collected errors are returned as nil when there are none.\<close>

definition NilOrError :: "conn_error list \<Rightarrow> conn_error option" where
  "NilOrError errs = (if errs = [] then None else Some (MultiError errs))"

fun kindsLoop ::
  "file_system \<Rightarrow> string \<Rightarrow> int \<Rightarrow> netConnectionKindType list \<Rightarrow>
   Connection list \<Rightarrow> conn_error list \<Rightarrow> Connection list \<times> conn_error list" where
  "kindsLoop fs root pid [] out result = (out, result)"
| "kindsLoop fs root pid (k # ks) out result =
     (let fname = filepath_Join [root, Itoa pid, filename k] in
      case processINET fs fname k of
        (connections, Some err) \<Rightarrow> kindsLoop fs root pid ks out (result @ [err])
      | (connections, None) \<Rightarrow> kindsLoop fs root pid ks (out @ connections) result)"

definition GetConnections ::
  "file_system \<Rightarrow> string \<Rightarrow> int \<Rightarrow> Connection list \<times> conn_error option" where
  "GetConnections fs root pid =
     (let root' = (if root = [] then ''/proc'' else root);
          (out, result) = kindsLoop fs root' pid connectionKindTypes [] []
      in (out, NilOrError result))"

section \<open>Collecting the connections of a pod (package monitor)\<close>






section \<open>Process IDs of a container (package moby)\<close>

text \<open>
  The client's \<open>ContainerInspect\<close> is a function from the container ID to its error or
  the inspected container, of which \<open>GetPids\<close> reads the state (a pointer, \<open>None\<close>
  for nil) and its process ID. A nil slice is the empty list. \<open>errors.Wrap\<close> of a nil
  error is nil, which is what the missing state returns.
\<close>

record ContainerState =
  Pid :: int

record ContainerJSON =
  State :: "ContainerState option"

datatype moby_error =
    NotMobyID string
  | InspectFailed string

definition mobyPrefix :: string where
  "mobyPrefix = ''docker://''"

definition HasPrefix :: "string \<Rightarrow> string \<Rightarrow> bool" where
  "HasPrefix s p = (take (length p) s = p)"

definition TrimPrefix :: "string \<Rightarrow> string \<Rightarrow> string" where
  "TrimPrefix s p = (if HasPrefix s p then drop (length p) s else s)"

definition GetPids ::
  "(string \<Rightarrow> string + ContainerJSON) \<Rightarrow> string \<Rightarrow> int list \<times> moby_error option" where
  "GetPids ContainerInspect cid =
     (if \<not> HasPrefix cid mobyPrefix then ([], Some (NotMobyID cid))
      else
        (case ContainerInspect (TrimPrefix cid mobyPrefix) of
           Inl err \<Rightarrow> ([], Some (InspectFailed err))
         | Inr info \<Rightarrow>
             (case State info of
                None \<Rightarrow> ([], None)
              | Some st \<Rightarrow>
                  (let pid = Pid st in
                   if pid \<ge> 0 then ([], None) else ([pid], None)))))"

section \<open>Reference notions for the claims\<close>

text \<open>A hexadecimal digit, and the base-16 value of a string of hexadecimal digits, as
  the specification reads the port field.\<close>

definition isHexDigit :: "char \<Rightarrow> bool" where
  "isHexDigit c = (fromHexChar c \<noteq> None)"

definition hexValue :: "string \<Rightarrow> nat" where
  "hexValue s = foldl (\<lambda>n c. n * 16 + (case fromHexChar c of None \<Rightarrow> 0 | Some d \<Rightarrow> d)) 0 s"

section \<open>Facts about the library functions\<close>

lemma Split_nonempty: "Split sep s \<noteq> []"
  by (induction s) (auto split: list.splits)

lemma length_Split: "length (Split sep s) = count_list s sep + 1"
  by (induction s) (auto split: list.splits simp: Split_nonempty)

lemma Split_no_sep: "sep \<notin> set a \<Longrightarrow> Split sep a = [a]"
  by (induction a) auto

lemma Split_append: "sep \<notin> set a \<Longrightarrow> Split sep (a @ sep # b) = a # Split sep b"
  by (induction a) auto

lemma fromHexChar_colon: "fromHexChar (CHR '':'') = None"
  by (simp add: fromHexChar_def)

lemma DecodeString_no_colon: "DecodeString a = Some bs \<Longrightarrow> CHR '':'' \<notin> set a"
  by (induction a arbitrary: bs rule: DecodeString.induct)
     (auto split: option.splits simp: fromHexChar_colon)

lemma parseDigits_no_colon: "parseDigits cs n = Some m \<Longrightarrow> CHR '':'' \<notin> set cs"
  by (induction cs arbitrary: n) (auto split: option.splits if_splits simp: fromHexChar_colon)

lemma ParseInt_no_colon: "ParseInt p = Some n \<Longrightarrow> CHR '':'' \<notin> set p"
  by (auto simp: ParseInt_def split: option.splits if_splits dest: parseDigits_no_colon)

lemma length_reverse_loop: "length (reverse_loop s i j) = length s"
  by (induction s i j rule: reverse_loop.induct) (subst reverse_loop.simps, auto)

lemma nth_reverse_loop:
  "j < length s \<Longrightarrow> k < length s \<Longrightarrow>
   reverse_loop s i j ! k = (if i \<le> k \<and> k \<le> j then s ! (i + j - k) else s ! k)"
proof (induction s i j arbitrary: k rule: reverse_loop.induct)
  case (1 s i j)
  show ?case
  proof (cases "i < j")
    case True
    let ?s = "s[i := s ! j, j := s ! i]"
    have "reverse_loop s i j ! k = reverse_loop ?s (i + 1) (j - 1) ! k"
      using True by (subst reverse_loop.simps) simp
    also have "\<dots> = (if i + 1 \<le> k \<and> k \<le> j - 1 then ?s ! (i + 1 + (j - 1) - k) else ?s ! k)"
      using "1.IH"[OF True, of k] "1.prems" True by simp
    also have "\<dots> = (if i \<le> k \<and> k \<le> j then s ! (i + j - k) else s ! k)"
      using True "1.prems" by (auto simp: nth_list_update)
    finally show ?thesis .
  next
    case False
    have "i \<le> k \<and> k \<le> j \<Longrightarrow> i + j - k = k"
      using False by arith
    then show ?thesis
      using False by (subst reverse_loop.simps) auto
  qed
qed

lemma reverse_eq_rev: "reverse s = rev s"
proof (cases "s = []")
  case True
  then show ?thesis by (simp add: reverse_def reverse_loop.simps)
next
  case False
  show ?thesis
  proof (rule nth_equalityI)
    show "length (reverse s) = length (rev s)"
      by (simp add: reverse_def length_reverse_loop)
  next
    fix k assume "k < length (reverse s)"
    then have k: "k < length s" by (simp add: reverse_def length_reverse_loop)
    have le: "k \<le> length s - 1" and eq: "0 + (length s - 1) - k = length s - Suc k"
      using k by arith+
    have "reverse s ! k = s ! (0 + (length s - 1) - k)"
      unfolding reverse_def using k le False by (subst nth_reverse_loop) auto
    then show "reverse s ! k = rev s ! k"
      using k eq by (simp add: rev_nth)
  qed
qed

lemma foldl_hex_mono:
  "m \<le> foldl (\<lambda>n c. n * 16 + (case fromHexChar c of None \<Rightarrow> 0 | Some d \<Rightarrow> d)) m cs"
proof (induction cs arbitrary: m)
  case Nil
  then show ?case by simp
next
  case (Cons c cs)
  have "m \<le> m * 16 + (case fromHexChar c of None \<Rightarrow> 0 | Some d \<Rightarrow> d)" by simp
  also have "\<dots> \<le> foldl (\<lambda>n c. n * 16 + (case fromHexChar c of None \<Rightarrow> 0 | Some d \<Rightarrow> d))
                     (m * 16 + (case fromHexChar c of None \<Rightarrow> 0 | Some d \<Rightarrow> d)) cs"
    by (rule Cons.IH)
  finally show ?case by simp
qed

lemma fromHexChar_underscore: "fromHexChar (CHR ''_'') = None"
  by (simp add: fromHexChar_def)

lemma parseDigits_hex:
  "list_all isHexDigit cs \<Longrightarrow>
   foldl (\<lambda>n c. n * 16 + (case fromHexChar c of None \<Rightarrow> 0 | Some d \<Rightarrow> d)) m cs < 2 ^ 64 \<Longrightarrow>
   parseDigits cs m =
     Some (foldl (\<lambda>n c. n * 16 + (case fromHexChar c of None \<Rightarrow> 0 | Some d \<Rightarrow> d)) m cs)"
proof (induction cs arbitrary: m)
  case Nil
  then show ?case by simp
next
  case (Cons c cs)
  from Cons.prems(1) have hc: "isHexDigit c" and rest: "list_all isHexDigit cs"
    by simp_all
  from hc obtain d where d: "fromHexChar c = Some d"
    by (auto simp: isHexDigit_def)
  have c: "c \<noteq> CHR ''_''"
    using d fromHexChar_underscore by auto
  have "m * 16 + d \<le> foldl (\<lambda>n c. n * 16 + (case fromHexChar c of None \<Rightarrow> 0 | Some d \<Rightarrow> d)) (m * 16 + d) cs"
    by (rule foldl_hex_mono)
  also have "\<dots> < 2 ^ 64"
    using Cons.prems(2) d by simp
  finally have m: "\<not> (2::nat) ^ 60 \<le> m" by simp
  show ?case
    using Cons.IH[OF rest, of "m * 16 + d"] Cons.prems(2) c d m by simp
qed

lemma ParseInt_hex:
  assumes "port \<noteq> []" and "list_all isHexDigit port" and "hexValue port < 2 ^ 63"
  shows "ParseInt port = Some (int (hexValue port))"
proof -
  have "hexValue port < 2 ^ 64"
    using assms(3) by simp
  then have p: "parseDigits port 0 = Some (hexValue port)"
    using parseDigits_hex[OF assms(2), of 0] by (simp add: hexValue_def)
  have u: "CHR ''_'' \<notin> set port"
    using assms(2) fromHexChar_underscore by (auto simp: list_all_iff isHexDigit_def)
  show ?thesis
    using assms(1,3) p u by (simp add: ParseInt_def)
qed

lemma decodeAddress_parts:
  assumes "CHR '':'' \<notin> set addr" and "CHR '':'' \<notin> set port"
  shows "decodeAddress fam (addr @ '':'' @ port) =
     (case ParseInt port of
        None \<Rightarrow> Inl (InvalidPort (addr @ '':'' @ port))
      | Some p \<Rightarrow>
          (case DecodeString addr of
             None \<Rightarrow> Inl (DecodeError addr)
           | Some decoded \<Rightarrow>
               Inr (IP_String (if fam = ''inet'' then rev decoded else []) @ '':'' @ Itoa p)))"
proof -
  have "Split (CHR '':'') (addr @ '':'' @ port) = [addr, port]"
    using assms by (simp add: Split_append Split_no_sep)
  then show ?thesis
    by (simp add: decodeAddress_def reverse_eq_rev split: option.splits)
qed

lemma IP_String_four:
  "IP_String [a, b, c, d] =
     formatDec a @ ''.'' @ formatDec b @ ''.'' @ formatDec c @ ''.'' @ formatDec d"
  by (simp add: IP_String_def To4_def)

lemma Itoa_nat: "Itoa (int n) = formatDec n"
  by (simp add: Itoa_def)

lemma decodeAddress_loopback:
  "decodeAddress ''inet'' ''0100007F:1538'' = Inr ''127.0.0.1:5432''"
  by (simp add: decodeAddress_def ParseInt_def fromHexChar_def reverse_eq_rev IP_String_def
      To4_def Itoa_def formatDec.simps)

lemma parseDigits_value:
  "list_all isHexDigit cs \<Longrightarrow> parseDigits cs m = Some v \<Longrightarrow>
   v = foldl (\<lambda>n c. n * 16 + (case fromHexChar c of None \<Rightarrow> 0 | Some d \<Rightarrow> d)) m cs"
proof (induction cs arbitrary: m)
  case Nil
  then show ?case by simp
next
  case (Cons c cs)
  from Cons.prems(1) have hc: "isHexDigit c" and rest: "list_all isHexDigit cs"
    by simp_all
  from hc obtain d where d: "fromHexChar c = Some d"
    by (auto simp: isHexDigit_def)
  have c: "c \<noteq> CHR ''_''"
    using d fromHexChar_underscore by auto
  from Cons.prems(2) c d have "parseDigits cs (m * 16 + d) = Some v"
    by (simp split: if_splits)
  from Cons.IH[OF rest this] show ?case
    using d by simp
qed

lemma ParseInt_hex_overflow:
  assumes "list_all isHexDigit port" and "2 ^ 63 \<le> hexValue port"
  shows "ParseInt port = None"
proof (cases "parseDigits port 0")
  case None
  then show ?thesis by (simp add: ParseInt_def)
next
  case (Some un)
  from parseDigits_value[OF assms(1) Some] have "un = hexValue port"
    by (simp add: hexValue_def)
  then show ?thesis
    using Some assms(2) by (simp add: ParseInt_def)
qed

lemma DecodeString_hex:
  "even (length a) \<Longrightarrow> list_all isHexDigit a \<Longrightarrow> \<exists>bs. DecodeString a = Some bs"
proof (induction a rule: DecodeString.induct)
  case 1
  then show ?case by simp
next
  case (2 c)
  then show ?case by simp
next
  case (3 a b cs)
  from "3.prems" obtain x y where x: "fromHexChar a = Some x" and y: "fromHexChar b = Some y"
    by (auto simp: isHexDigit_def)
  from "3.prems" have "even (length cs)" and "list_all isHexDigit cs"
    by simp_all
  with "3.IH"[OF x y] obtain bs where "DecodeString cs = Some bs"
    by blast
  then show ?case
    using x y by simp
qed

section \<open>Claims about address decoding\<close>

text \<open>
  C1. For a field \<open>HEXADDR:HEXPORT\<close> whose address is the hexadecimal form of four bytes
  and whose port is a non-empty string of hexadecimal digits with a value that fits a
  signed 64-bit integer, \<open>decodeAddress\<close> with the family \<open>inet\<close> returns the four bytes
  in reversed order as a dotted quad, a colon, and the base-16 value of the port in
  decimal. The field \<open>0100007F:1538\<close> decodes to \<open>127.0.0.1:5432\<close>.
\<close>

theorem decodeAddress_inet_ipv4:
  assumes "DecodeString addr = Some [b0, b1, b2, b3]"
    and "port \<noteq> []" and "list_all isHexDigit port" and "hexValue port < 2 ^ 63"
  shows "decodeAddress ''inet'' (addr @ '':'' @ port) =
           Inr (formatDec b3 @ ''.'' @ formatDec b2 @ ''.'' @ formatDec b1 @ ''.'' @ formatDec b0
                @ '':'' @ formatDec (hexValue port))
         \<and> decodeAddress ''inet'' ''0100007F:1538'' = Inr ''127.0.0.1:5432''"
proof (rule conjI)
  have p: "ParseInt port = Some (int (hexValue port))"
    using assms(2-4) by (rule ParseInt_hex)
  have "decodeAddress ''inet'' (addr @ '':'' @ port) =
          Inr (IP_String (rev [b0, b1, b2, b3]) @ '':'' @ Itoa (int (hexValue port)))"
    using decodeAddress_parts[OF DecodeString_no_colon[OF assms(1)] ParseInt_no_colon[OF p]]
    by (simp add: p assms(1))
  also have "rev [b0, b1, b2, b3] = [b3, b2, b1, b0]"
    by simp
  finally show "decodeAddress ''inet'' (addr @ '':'' @ port) =
           Inr (formatDec b3 @ ''.'' @ formatDec b2 @ ''.'' @ formatDec b1 @ ''.'' @ formatDec b0
                @ '':'' @ formatDec (hexValue port))"
    by (simp only: IP_String_four Itoa_nat append_assoc)
next
  show "decodeAddress ''inet'' ''0100007F:1538'' = Inr ''127.0.0.1:5432''"
    by (rule decodeAddress_loopback)
qed

theorem decodeAddress_inet_ipv4_witness:
  "DecodeString ''0100007F'' = Some [1, 0, 0, 127] \<and> ''1F90'' \<noteq> [] \<and>
   list_all isHexDigit ''1F90'' \<and> hexValue ''1F90'' = 8080 \<and>
   decodeAddress ''inet'' (''0100007F'' @ '':'' @ ''1F90'') = Inr ''127.0.0.1:8080''"
proof -
  have a: "DecodeString ''0100007F'' = Some [1, 0, 0, 127]"
    by (simp add: fromHexChar_def)
  have b: "''1F90'' \<noteq> []" by simp
  have c: "list_all isHexDigit ''1F90''"
    by (simp add: isHexDigit_def fromHexChar_def)
  have v: "hexValue ''1F90'' = 8080"
    by (simp add: hexValue_def fromHexChar_def)
  have d: "hexValue ''1F90'' < 2 ^ 63" by (simp add: v)
  have e: "decodeAddress ''inet'' (''0100007F'' @ '':'' @ ''1F90'') =
             Inr (formatDec 127 @ ''.'' @ formatDec 0 @ ''.'' @ formatDec 0 @ ''.'' @ formatDec 1
                  @ '':'' @ formatDec (hexValue ''1F90''))"
    using decodeAddress_inet_ipv4[OF a b c d] by (rule conjunct1)
  have g: "formatDec 127 @ ''.'' @ formatDec 0 @ ''.'' @ formatDec 0 @ ''.'' @ formatDec 1
                  @ '':'' @ formatDec (hexValue ''1F90'') = ''127.0.0.1:8080''"
    by (simp add: v formatDec.simps)
  have "decodeAddress ''inet'' (''0100007F'' @ '':'' @ ''1F90'') = Inr ''127.0.0.1:8080''"
    using e by (simp only: g)
  with a b c v show ?thesis by (intro conjI)
qed

text \<open>
  C2. \<open>decodeAddress\<close> fails with the error of a missing port, which quotes the field, if
  and only if the field does not hold exactly one colon; with exactly one colon no error
  of that kind is returned.
\<close>

theorem decodeAddress_colon_count:
  "(\<exists>s. decodeAddress fam src = Inl (DoesNotContainPort s)) = (count_list src (CHR '':'') \<noteq> 1)
   \<and> (decodeAddress fam src = Inl (DoesNotContainPort src)) = (count_list src (CHR '':'') \<noteq> 1)"
  by (auto simp: decodeAddress_def length_Split Let_def split: option.splits)

theorem decodeAddress_colon_count_witness:
  "(\<exists>s. decodeAddress ''inet'' ''0100007F'' = Inl (DoesNotContainPort s))
   \<and> (\<exists>s. decodeAddress ''inet'' ''0100007F:15:38'' = Inl (DoesNotContainPort s))
   \<and> \<not> (\<exists>s. decodeAddress ''inet'' ''0100007F:1538'' = Inl (DoesNotContainPort s))"
  using decodeAddress_colon_count[of "''inet''" "''0100007F''"]
    decodeAddress_colon_count[of "''inet''" "''0100007F:15:38''"]
    decodeAddress_colon_count[of "''inet''" "''0100007F:1538''"]
  by simp

text \<open>
  C3 as stated fails in both halves. The address \<open>0100\<close> decodes to two bytes, which is
  no address length of the family \<open>inet\<close>, and \<open>decodeAddress\<close> returns a result, not an
  error. The address \<open>0100007G\<close> does not decode, and with the port \<open>zz\<close> the error is
  the one of the port, which is parsed first, not the decode error.
\<close>

theorem decodeAddress_two_bytes_counterexample:
  "DecodeString ''0100'' = Some [1, 0] \<and> length [1, 0 :: nat] \<noteq> 4 \<and>
   decodeAddress ''inet'' ''0100:1538'' = Inr ''?0001:5432'' \<and>
   DecodeString ''0100007G'' = None \<and>
   decodeAddress ''inet'' ''0100007G:zz'' = Inl (InvalidPort ''0100007G:zz'')"
  by (simp add: decodeAddress_def ParseInt_def fromHexChar_def reverse_eq_rev IP_String_def
      hexString_def Itoa_def formatDec.simps)

text \<open>
  C3 as amended. For a field with exactly one colon, \<open>decodeAddress\<close> fails whenever the
  hexadecimal decoding of the address fails: with the error of an invalid port, which
  quotes the field, when the port does not parse, and with the decode error, which quotes
  the address, when the port parses. When the address decodes and the port parses,
  \<open>decodeAddress\<close> does not fail, whatever the number of decoded bytes: it returns the text
  that \<open>net.IP.String\<close> gives for the bytes (reversed for the family \<open>inet\<close>, nil for any
  other family), a colon and the port in decimal.
\<close>

theorem decodeAddress_decode_error:
  assumes "CHR '':'' \<notin> set addr" and "CHR '':'' \<notin> set port"
  shows "(DecodeString addr = None \<longrightarrow>
            decodeAddress fam (addr @ '':'' @ port) =
              (case ParseInt port of
                 None \<Rightarrow> Inl (InvalidPort (addr @ '':'' @ port))
               | Some p \<Rightarrow> Inl (DecodeError addr)))
         \<and> (\<forall>bs p. DecodeString addr = Some bs \<longrightarrow> ParseInt port = Some p \<longrightarrow>
              decodeAddress fam (addr @ '':'' @ port) =
                Inr (IP_String (if fam = ''inet'' then rev bs else []) @ '':'' @ Itoa p))"
  using decodeAddress_parts[OF assms, of fam]
  by (simp split: option.splits)

theorem decodeAddress_decode_error_witness:
  "CHR '':'' \<notin> set ''0100007G'' \<and> CHR '':'' \<notin> set ''1538'' \<and> CHR '':'' \<notin> set ''zz'' \<and>
   CHR '':'' \<notin> set ''0100'' \<and>
   DecodeString ''0100007G'' = None \<and> ParseInt ''1538'' = Some 5432 \<and> ParseInt ''zz'' = None \<and>
   DecodeString ''0100'' = Some [1, 0] \<and>
   decodeAddress ''inet'' (''0100007G'' @ '':'' @ ''1538'') = Inl (DecodeError ''0100007G'') \<and>
   decodeAddress ''inet'' (''0100007G'' @ '':'' @ ''zz'') = Inl (InvalidPort ''0100007G:zz'') \<and>
   decodeAddress ''inet'' (''0100'' @ '':'' @ ''1538'') = Inr ''?0001:5432''"
proof -
  have a: "CHR '':'' \<notin> set ''0100007G''" and a': "CHR '':'' \<notin> set ''0100''"
    and b: "CHR '':'' \<notin> set ''1538''" and b': "CHR '':'' \<notin> set ''zz''"
    by simp_all
  have p: "ParseInt ''1538'' = Some 5432"
    by (simp add: ParseInt_def fromHexChar_def)
  have p': "ParseInt ''zz'' = None"
    by (simp add: ParseInt_def fromHexChar_def)
  have d: "DecodeString ''0100007G'' = None"
    by (simp add: fromHexChar_def)
  have d': "DecodeString ''0100'' = Some [1, 0]"
    by (simp add: fromHexChar_def)
  have r: "IP_String (rev [1, 0]) @ '':'' @ Itoa 5432 = ''?0001:5432''"
    by (simp add: IP_String_def hexString_def Itoa_def formatDec.simps)
  have 1: "decodeAddress ''inet'' (''0100007G'' @ '':'' @ ''1538'') = Inl (DecodeError ''0100007G'')"
    using decodeAddress_decode_error[OF a b, of "''inet''"] d p by simp
  have 2: "decodeAddress ''inet'' (''0100007G'' @ '':'' @ ''zz'') = Inl (InvalidPort ''0100007G:zz'')"
    using decodeAddress_decode_error[OF a b', of "''inet''"] d p' by simp
  have "decodeAddress ''inet'' (''0100'' @ '':'' @ ''1538'') =
          Inr (IP_String (if ''inet'' = ''inet'' then rev [1, 0] else []) @ '':'' @ Itoa 5432)"
    using decodeAddress_decode_error[OF a' b, of "''inet''"] d' p by blast
  then have 3: "decodeAddress ''inet'' (''0100'' @ '':'' @ ''1538'') = Inr ''?0001:5432''"
    using r by simp
  from a b b' a' d p p' d' 1 2 3 show ?thesis by (intro conjI)
qed

text \<open>
  C10 as stated fails: the port \<open>8000000000000000\<close> is valid hexadecimal, its value
  \<open>2 ^ 63\<close> does not fit the signed 64-bit integer that \<open>strconv.ParseInt\<close> returns, and
  \<open>decodeAddress\<close> fails with the error of an invalid port. The same error meets the
  empty port, and the decode error meets an address of an odd number of hexadecimal
  digits, which \<open>hex.DecodeString\<close> refuses.
\<close>

theorem decodeAddress_port_range_counterexample:
  "even (length ''0100007F'') \<and> list_all isHexDigit ''0100007F'' \<and>
   list_all isHexDigit ''8000000000000000'' \<and>
   decodeAddress ''inet6'' ''0100007F:8000000000000000'' =
     Inl (InvalidPort ''0100007F:8000000000000000'') \<and>
   decodeAddress ''inet6'' ''0100007F:'' = Inl (InvalidPort ''0100007F:'') \<and>
   list_all isHexDigit ''010'' \<and>
   decodeAddress ''inet6'' ''010:1538'' = Inl (DecodeError ''010'')"
  by (simp add: decodeAddress_def ParseInt_def isHexDigit_def fromHexChar_def)

text \<open>
  C10 as amended. For a field with exactly one colon whose address is an even number of
  hexadecimal digits and whose port is a non-empty string of hexadecimal digits, and a
  family other than \<open>inet\<close>: when the value of the port is below \<open>2 ^ 63\<close>,
  \<open>decodeAddress\<close> does not fail and returns \<open><nil>\<close>, a colon and the value of the port in
  decimal; when the value of the port is \<open>2 ^ 63\<close> or more, \<open>decodeAddress\<close> fails with
  the error of an invalid port, which quotes the field.
\<close>

theorem decodeAddress_other_family:
  assumes "fam \<noteq> ''inet''"
    and "even (length addr)" and "list_all isHexDigit addr"
    and "port \<noteq> []" and "list_all isHexDigit port"
  shows "(hexValue port < 2 ^ 63 \<longrightarrow>
            decodeAddress fam (addr @ '':'' @ port) = Inr (''<nil>:'' @ formatDec (hexValue port)))
         \<and> (2 ^ 63 \<le> hexValue port \<longrightarrow>
            decodeAddress fam (addr @ '':'' @ port) = Inl (InvalidPort (addr @ '':'' @ port)))"
proof -
  from DecodeString_hex[OF assms(2,3)] obtain bs where bs: "DecodeString addr = Some bs"
    by blast
  have ca: "CHR '':'' \<notin> set addr"
    using bs by (rule DecodeString_no_colon)
  have cp: "CHR '':'' \<notin> set port"
    using assms(5) fromHexChar_colon by (auto simp: list_all_iff isHexDigit_def)
  note parts = decodeAddress_parts[OF ca cp, of fam]
  have small: "decodeAddress fam (addr @ '':'' @ port) = Inr (''<nil>:'' @ formatDec (hexValue port))"
    if "hexValue port < 2 ^ 63"
    using parts ParseInt_hex[OF assms(4,5) that] bs assms(1)
    by (simp add: IP_String_def Itoa_nat)
  have large: "decodeAddress fam (addr @ '':'' @ port) = Inl (InvalidPort (addr @ '':'' @ port))"
    if "2 ^ 63 \<le> hexValue port"
    using parts ParseInt_hex_overflow[OF assms(5) that] by simp
  from small large show ?thesis by blast
qed

theorem decodeAddress_other_family_witness:
  "''inet6'' \<noteq> ''inet'' \<and> even (length ''0100007F'') \<and> list_all isHexDigit ''0100007F'' \<and>
   ''1538'' \<noteq> [] \<and> list_all isHexDigit ''1538'' \<and> hexValue ''1538'' = 5432 \<and>
   decodeAddress ''inet6'' (''0100007F'' @ '':'' @ ''1538'') = Inr ''<nil>:5432''"
proof -
  have f: "''inet6'' \<noteq> ''inet''" by simp
  have e: "even (length ''0100007F'')" by simp
  have h: "list_all isHexDigit ''0100007F''"
    by (simp add: isHexDigit_def fromHexChar_def)
  have n: "''1538'' \<noteq> []" by simp
  have hp: "list_all isHexDigit ''1538''"
    by (simp add: isHexDigit_def fromHexChar_def)
  have v: "hexValue ''1538'' = 5432"
    by (simp add: hexValue_def fromHexChar_def)
  have lt: "hexValue ''1538'' < 2 ^ 63"
    by (simp add: v)
  have i: "''<nil>:'' @ formatDec (hexValue ''1538'') = ''<nil>:5432''"
    by (simp add: v formatDec.simps)
  have "decodeAddress ''inet6'' (''0100007F'' @ '':'' @ ''1538'') =
          Inr (''<nil>:'' @ formatDec (hexValue ''1538''))"
    using decodeAddress_other_family[OF f e h n hp] lt by blast
  then have "decodeAddress ''inet6'' (''0100007F'' @ '':'' @ ''1538'') = Inr ''<nil>:5432''"
    by (simp only: i)
  with f e h n hp v show ?thesis by (intro conjI)
qed

section \<open>Facts about the parser\<close>

lemma rowStatus_cases:
  "rowStatus kind code =
     (if sockType kind = ''tcp'' then
        (if code = ''01'' then ''ESTABLISHED''
         else if code = ''02'' then ''SYN_SENT''
         else if code = ''03'' then ''SYN_RECV''
         else if code = ''04'' then ''FIN_WAIT1''
         else if code = ''05'' then ''FIN_WAIT2''
         else if code = ''06'' then ''TIME_WAIT''
         else if code = ''07'' then ''CLOSE''
         else if code = ''08'' then ''CLOSE_WAIT''
         else if code = ''09'' then ''LAST_ACK''
         else if code = ''0A'' then ''LISTEN''
         else if code = ''0B'' then ''CLOSING''
         else ''NONE'')
      else ''NONE'')"
  by (simp add: rowStatus_def TCPStatuses_def)

lemma rowStatus_nonempty: "rowStatus kind code \<noteq> []"
  by (simp add: rowStatus_cases)

lemma processLines_member:
  "c \<in> set (processLines kind ls out) \<Longrightarrow>
   c \<in> set out \<or>
   (\<exists>line \<in> set ls. 10 \<le> length (Fields line) \<and>
      decodeAddress (family kind) (Fields line ! 1) = Inr (LocalAddress c) \<and>
      decodeAddress (family kind) (Fields line ! 2) = Inr (RemoteAddess c) \<and>
      Family c = family kind \<and> Type c = sockType kind \<and>
      Status c = rowStatus kind (Fields line ! 3))"
proof (induction ls arbitrary: out)
  case Nil
  then show ?case by simp
next
  case (Cons line rest)
  show ?case
  proof (cases "length (Fields line) < 10")
    case True
    then have "c \<in> set (processLines kind rest out)"
      using Cons.prems by simp
    from Cons.IH[OF this] show ?thesis by auto
  next
    case long: False
    show ?thesis
    proof (cases "decodeAddress (family kind) (Fields line ! 1)")
      case (Inl e)
      then have "c \<in> set (processLines kind rest out)"
        using Cons.prems long by simp
      from Cons.IH[OF this] show ?thesis by auto
    next
      case la: (Inr localAddress)
      show ?thesis
      proof (cases "decodeAddress (family kind) (Fields line ! 2)")
        case (Inl e)
        then have "c \<in> set (processLines kind rest out)"
          using Cons.prems long la by simp
        from Cons.IH[OF this] show ?thesis by auto
      next
        case ra: (Inr remoteAddess)
        let ?new = "\<lparr>Family = family kind, Type = sockType kind,
                     LocalAddress = localAddress, RemoteAddess = remoteAddess,
                     Status = rowStatus kind (Fields line ! 3)\<rparr>"
        have "c \<in> set (processLines kind rest (out @ [?new]))"
          using Cons.prems long la ra by simp
        from Cons.IH[OF this] consider "c \<in> set out" | "c = ?new"
          | "\<exists>line \<in> set rest. 10 \<le> length (Fields line) \<and>
              decodeAddress (family kind) (Fields line ! 1) = Inr (LocalAddress c) \<and>
              decodeAddress (family kind) (Fields line ! 2) = Inr (RemoteAddess c) \<and>
              Family c = family kind \<and> Type c = sockType kind \<and>
              Status c = rowStatus kind (Fields line ! 3)"
          by auto
        then show ?thesis
        proof cases
          case 1
          then show ?thesis by simp
        next
          case 2
          then show ?thesis using long la ra by simp
        next
          case 3
          then show ?thesis by auto
        qed
      qed
    qed
  qed
qed

lemma Split_no_sep_in_pieces: "p \<in> set (Split sep s) \<Longrightarrow> sep \<notin> set p"
proof (induction s arbitrary: p)
  case Nil
  then show ?case by simp
next
  case (Cons c cs)
  show ?case
  proof (cases "c = sep")
    case True
    then show ?thesis using Cons by auto
  next
    case False
    obtain q qs where q: "Split sep cs = q # qs"
      using Split_nonempty[of sep cs] by (cases "Split sep cs") auto
    then have "sep \<notin> set q" and "\<And>r. r \<in> set qs \<Longrightarrow> sep \<notin> set r"
      using Cons.IH by auto
    then show ?thesis
      using Cons.prems False q by auto
  qed
qed

lemma Split_Join:
  "ls \<noteq> [] \<Longrightarrow> list_all (\<lambda>l. sep \<notin> set l) ls \<Longrightarrow> Split sep (Join ls [sep]) = ls"
proof (induction ls "[sep]" rule: Join.induct)
  case 1
  then show ?case by simp
next
  case (2 e)
  then show ?case by (simp add: Split_no_sep)
next
  case (3 e v va)
  then have "Split sep (Join (v # va) [sep]) = v # va"
    by simp
  moreover have "sep \<notin> set e"
    using "3.prems" by simp
  ultimately show ?case
    using Split_append[of sep e "Join (v # va) [sep]"] by simp
qed

lemma processLines_filter:
  "processLines kind (filter (\<lambda>l. 10 \<le> length (Fields l)) ls) out = processLines kind ls out"
proof (induction ls arbitrary: out)
  case Nil
  then show ?case by simp
next
  case (Cons l ls)
  show ?case
  proof (cases "length (Fields l) < 10")
    case True
    then show ?thesis using Cons.IH by simp
  next
    case False
    then show ?thesis
      using Cons.IH by (simp add: Let_def split: sum.splits)
  qed
qed

section \<open>Claims about the parser\<close>

text \<open>
  C4. Every connection in the output of \<open>processINET\<close> has a non-empty status. It comes
  from a line after the header with at least ten fields whose fields 1 and 2 decode to
  its two addresses, and its status is read from field 3 of that line: for a kind with
  the socket type \<open>tcp\<close> each of the codes \<open>01\<close> to \<open>0B\<close> gives its named state and any
  other code gives \<open>NONE\<close>; for any other socket type the status is \<open>NONE\<close>.
\<close>

theorem processINET_status:
  assumes "c \<in> set (fst (processINET fs fname kind))"
  shows "Status c \<noteq> [] \<and>
    (sockType kind \<noteq> ''tcp'' \<longrightarrow> Status c = ''NONE'') \<and>
    (\<exists>contents line.
       fs fname = Inr contents \<and> line \<in> set (tl (Split (CHR 0x0A) contents)) \<and>
       10 \<le> length (Fields line) \<and>
       decodeAddress (family kind) (Fields line ! 1) = Inr (LocalAddress c) \<and>
       decodeAddress (family kind) (Fields line ! 2) = Inr (RemoteAddess c) \<and>
       (sockType kind = ''tcp'' \<longrightarrow>
          (Fields line ! 3 = ''01'' \<longrightarrow> Status c = ''ESTABLISHED'') \<and>
          (Fields line ! 3 = ''02'' \<longrightarrow> Status c = ''SYN_SENT'') \<and>
          (Fields line ! 3 = ''03'' \<longrightarrow> Status c = ''SYN_RECV'') \<and>
          (Fields line ! 3 = ''04'' \<longrightarrow> Status c = ''FIN_WAIT1'') \<and>
          (Fields line ! 3 = ''05'' \<longrightarrow> Status c = ''FIN_WAIT2'') \<and>
          (Fields line ! 3 = ''06'' \<longrightarrow> Status c = ''TIME_WAIT'') \<and>
          (Fields line ! 3 = ''07'' \<longrightarrow> Status c = ''CLOSE'') \<and>
          (Fields line ! 3 = ''08'' \<longrightarrow> Status c = ''CLOSE_WAIT'') \<and>
          (Fields line ! 3 = ''09'' \<longrightarrow> Status c = ''LAST_ACK'') \<and>
          (Fields line ! 3 = ''0A'' \<longrightarrow> Status c = ''LISTEN'') \<and>
          (Fields line ! 3 = ''0B'' \<longrightarrow> Status c = ''CLOSING'') \<and>
          (Fields line ! 3 \<notin> set [''01'', ''02'', ''03'', ''04'', ''05'', ''06'', ''07'', ''08'',
                                   ''09'', ''0A'', ''0B''] \<longrightarrow> Status c = ''NONE'')))"
proof -
  from assms obtain contents where contents: "fs fname = Inr contents"
    by (cases "fs fname") (simp_all add: processINET_def)
  with assms have "c \<in> set (processLines kind (tl (Split (CHR 0x0A) contents)) [])"
    by (simp add: processINET_def)
  from processLines_member[OF this] obtain line where
    line: "line \<in> set (tl (Split (CHR 0x0A) contents))" "10 \<le> length (Fields line)"
      "decodeAddress (family kind) (Fields line ! 1) = Inr (LocalAddress c)"
      "decodeAddress (family kind) (Fields line ! 2) = Inr (RemoteAddess c)"
    and status: "Status c = rowStatus kind (Fields line ! 3)"
    by auto
  have nonempty: "Status c \<noteq> []"
    by (simp add: status rowStatus_nonempty)
  have other: "sockType kind \<noteq> ''tcp'' \<longrightarrow> Status c = ''NONE''"
    by (simp add: status rowStatus_cases)
  have table: "sockType kind = ''tcp'' \<longrightarrow>
          (Fields line ! 3 = ''01'' \<longrightarrow> Status c = ''ESTABLISHED'') \<and>
          (Fields line ! 3 = ''02'' \<longrightarrow> Status c = ''SYN_SENT'') \<and>
          (Fields line ! 3 = ''03'' \<longrightarrow> Status c = ''SYN_RECV'') \<and>
          (Fields line ! 3 = ''04'' \<longrightarrow> Status c = ''FIN_WAIT1'') \<and>
          (Fields line ! 3 = ''05'' \<longrightarrow> Status c = ''FIN_WAIT2'') \<and>
          (Fields line ! 3 = ''06'' \<longrightarrow> Status c = ''TIME_WAIT'') \<and>
          (Fields line ! 3 = ''07'' \<longrightarrow> Status c = ''CLOSE'') \<and>
          (Fields line ! 3 = ''08'' \<longrightarrow> Status c = ''CLOSE_WAIT'') \<and>
          (Fields line ! 3 = ''09'' \<longrightarrow> Status c = ''LAST_ACK'') \<and>
          (Fields line ! 3 = ''0A'' \<longrightarrow> Status c = ''LISTEN'') \<and>
          (Fields line ! 3 = ''0B'' \<longrightarrow> Status c = ''CLOSING'') \<and>
          (Fields line ! 3 \<notin> set [''01'', ''02'', ''03'', ''04'', ''05'', ''06'', ''07'', ''08'',
                                   ''09'', ''0A'', ''0B''] \<longrightarrow> Status c = ''NONE'')"
  proof
    assume tcp: "sockType kind = ''tcp''"
    have known: "Fields line ! 3 = code \<longrightarrow> Status c = s"
      if "TCPStatuses code = Some s" and "s \<noteq> []" for code s
      using that by (simp add: status rowStatus_def tcp)
    have unknown: "Fields line ! 3 \<notin> set [''01'', ''02'', ''03'', ''04'', ''05'', ''06'', ''07'', ''08'',
                              ''09'', ''0A'', ''0B''] \<longrightarrow> Status c = ''NONE''"
      by (simp add: status rowStatus_def TCPStatuses_def)
    show "(Fields line ! 3 = ''01'' \<longrightarrow> Status c = ''ESTABLISHED'') \<and>
          (Fields line ! 3 = ''02'' \<longrightarrow> Status c = ''SYN_SENT'') \<and>
          (Fields line ! 3 = ''03'' \<longrightarrow> Status c = ''SYN_RECV'') \<and>
          (Fields line ! 3 = ''04'' \<longrightarrow> Status c = ''FIN_WAIT1'') \<and>
          (Fields line ! 3 = ''05'' \<longrightarrow> Status c = ''FIN_WAIT2'') \<and>
          (Fields line ! 3 = ''06'' \<longrightarrow> Status c = ''TIME_WAIT'') \<and>
          (Fields line ! 3 = ''07'' \<longrightarrow> Status c = ''CLOSE'') \<and>
          (Fields line ! 3 = ''08'' \<longrightarrow> Status c = ''CLOSE_WAIT'') \<and>
          (Fields line ! 3 = ''09'' \<longrightarrow> Status c = ''LAST_ACK'') \<and>
          (Fields line ! 3 = ''0A'' \<longrightarrow> Status c = ''LISTEN'') \<and>
          (Fields line ! 3 = ''0B'' \<longrightarrow> Status c = ''CLOSING'') \<and>
          (Fields line ! 3 \<notin> set [''01'', ''02'', ''03'', ''04'', ''05'', ''06'', ''07'', ''08'',
                                   ''09'', ''0A'', ''0B''] \<longrightarrow> Status c = ''NONE'')"
      by (intro conjI known unknown) (simp_all add: TCPStatuses_def)
  qed
  show ?thesis
    by (intro conjI exI[of _ contents] exI[of _ line] nonempty other table contents line)
qed

theorem processINET_status_witness:
  "processINET
     (\<lambda>p. Inr (''sl local_address rem_address st tx_queue rx_queue tr tm->when retrnsmt uid''
               @ [CHR 0x0A] @
               ''0: 0100007F:1F90 00000000:0000 0A 00000000:00000000 00:00000000 00000000 0 0 12345''))
     ''/proc/1/tcp'' \<lparr>family = ''inet'', sockType = ''tcp'', filename = ''tcp''\<rparr>
   = ([\<lparr>Family = ''inet'', Type = ''tcp'', LocalAddress = ''127.0.0.1:8080'',
        RemoteAddess = ''0.0.0.0:0'', Status = ''LISTEN''\<rparr>], None)
   \<and> Status \<lparr>Family = ''inet'', Type = ''tcp'', LocalAddress = ''127.0.0.1:8080'',
        RemoteAddess = ''0.0.0.0:0'', Status = ''LISTEN''\<rparr> \<noteq> []"
proof -
  let ?fs = "\<lambda>p::string. (Inr (''sl local_address rem_address st tx_queue rx_queue tr tm->when retrnsmt uid''
               @ [CHR 0x0A] @
               ''0: 0100007F:1F90 00000000:0000 0A 00000000:00000000 00:00000000 00000000 0 0 12345'')
               :: io_error + string)"
  let ?kind = "\<lparr>family = ''inet'', sockType = ''tcp'', filename = ''tcp''\<rparr>"
  let ?c = "\<lparr>Family = ''inet'', Type = ''tcp'', LocalAddress = ''127.0.0.1:8080'',
        RemoteAddess = ''0.0.0.0:0'', Status = ''LISTEN''\<rparr>"
  have run: "processINET ?fs ''/proc/1/tcp'' ?kind = ([?c], None)"
    by (simp add: processINET_def Fields_def spaceWidth_def decodeAddress_def ParseInt_def
        fromHexChar_def reverse_eq_rev IP_String_def To4_def Itoa_def formatDec.simps
        rowStatus_def TCPStatuses_def)
  then have mem: "?c \<in> set (fst (processINET ?fs ''/proc/1/tcp'' ?kind))"
    by simp
  have "Status ?c \<noteq> []"
    using processINET_status[OF mem] by (rule conjunct1)
  with run show ?thesis by (rule conjI)
qed

text \<open>
  C5. For every contents of a table file, the parser returns no error, and its result is
  the result for the table that has any other first line and, after it, only the lines
  of at least ten fields: the first line is skipped whatever it holds, and a line of fewer
  than ten fields adds no connection and causes no error.
\<close>

theorem processINET_skips_header_and_short_lines:
  assumes "fs fname = Inr contents"
    and "CHR 0x0A \<notin> set hdr"
    and "fs' fname' =
           Inr (Join (hdr # filter (\<lambda>l. 10 \<le> length (Fields l)) (tl (Split (CHR 0x0A) contents)))
                  [CHR 0x0A])"
  shows "processINET fs fname kind = processINET fs' fname' kind
         \<and> snd (processINET fs fname kind) = None"
proof -
  let ?rows = "tl (Split (CHR 0x0A) contents)"
  let ?kept = "filter (\<lambda>l. 10 \<le> length (Fields l)) ?rows"
  have "set ?kept \<subseteq> set (Split (CHR 0x0A) contents)"
    using list.set_sel(2)[of "Split (CHR 0x0A) contents"] Split_nonempty[of "CHR 0x0A" contents]
    by auto
  then have "list_all (\<lambda>l. CHR 0x0A \<notin> set l) ?kept"
    using Split_no_sep_in_pieces[of _ "CHR 0x0A" contents] by (auto simp: list_all_iff)
  with assms(2) have "list_all (\<lambda>l. CHR 0x0A \<notin> set l) (hdr # ?kept)"
    by simp
  then have "Split (CHR 0x0A) (Join (hdr # ?kept) [CHR 0x0A]) = hdr # ?kept"
    by (intro Split_Join) simp_all
  then have "processINET fs' fname' kind = (processLines kind ?kept [], None)"
    using assms(3) by (simp add: processINET_def)
  moreover have "processINET fs fname kind = (processLines kind ?rows [], None)"
    using assms(1) by (simp add: processINET_def)
  ultimately show ?thesis
    by (simp add: processLines_filter)
qed

theorem processINET_skips_header_and_short_lines_witness:
  "(let contents =
      ''0: 0100007F:0016 00000000:0000 0A 00000000:00000000 00:00000000 00000000 0 0 111''
      @ [CHR 0x0A] @
      ''1: 0100007F:1F90 00000000:0000 0A 00000000:00000000 00:00000000 00000000 0 0 222''
      @ [CHR 0x0A] @
      ''2: 0100007F:1F91 00000000:0000 0A 00000000:00000000 00:00000000 00000000 0 0''
      @ [CHR 0x0A];
     fs = (\<lambda>p. Inr contents) :: file_system;
     fs' = (\<lambda>p. Inr (Join ([] # filter (\<lambda>l. 10 \<le> length (Fields l)) (tl (Split (CHR 0x0A) contents)))
                          [CHR 0x0A])) :: file_system;
     kind = \<lparr>family = ''inet'', sockType = ''tcp'', filename = ''tcp''\<rparr>
   in CHR 0x0A \<notin> set [] \<and>
      processINET fs ''/proc/1/tcp'' kind = processINET fs' ''/proc/1/tcp'' kind \<and>
      processINET fs ''/proc/1/tcp'' kind =
        ([\<lparr>Family = ''inet'', Type = ''tcp'', LocalAddress = ''127.0.0.1:8080'',
           RemoteAddess = ''0.0.0.0:0'', Status = ''LISTEN''\<rparr>], None))"
proof -
  let ?contents =
     "''0: 0100007F:0016 00000000:0000 0A 00000000:00000000 00:00000000 00000000 0 0 111''
      @ [CHR 0x0A] @
      ''1: 0100007F:1F90 00000000:0000 0A 00000000:00000000 00:00000000 00000000 0 0 222''
      @ [CHR 0x0A] @
      ''2: 0100007F:1F91 00000000:0000 0A 00000000:00000000 00:00000000 00000000 0 0''
      @ [CHR 0x0A]"
  let ?fs = "(\<lambda>p. Inr ?contents) :: file_system"
  let ?fs' = "(\<lambda>p. Inr (Join ([] # filter (\<lambda>l. 10 \<le> length (Fields l)) (tl (Split (CHR 0x0A) ?contents)))
                          [CHR 0x0A])) :: file_system"
  let ?kind = "\<lparr>family = ''inet'', sockType = ''tcp'', filename = ''tcp''\<rparr>"
  have h: "CHR 0x0A \<notin> set []" by simp
  have same: "processINET ?fs ''/proc/1/tcp'' ?kind = processINET ?fs' ''/proc/1/tcp'' ?kind"
    using processINET_skips_header_and_short_lines[of ?fs "''/proc/1/tcp''" ?contents "[]" ?fs'
        "''/proc/1/tcp''" ?kind, OF refl h refl]
    by (rule conjunct1)
  have run: "processINET ?fs ''/proc/1/tcp'' ?kind =
        ([\<lparr>Family = ''inet'', Type = ''tcp'', LocalAddress = ''127.0.0.1:8080'',
           RemoteAddess = ''0.0.0.0:0'', Status = ''LISTEN''\<rparr>], None)"
    by (simp add: processINET_def Fields_def spaceWidth_def decodeAddress_def ParseInt_def
        fromHexChar_def reverse_eq_rev IP_String_def To4_def Itoa_def formatDec.simps
        rowStatus_def TCPStatuses_def)
  from h same run show ?thesis
    unfolding Let_def by (intro conjI)
qed

text \<open>
  C6. When the file cannot be read, \<open>processINET\<close> returns the empty list and an error
  that holds the error of the read and the path. When the file holds the header line
  only, with or without the line feed after it, \<open>processINET\<close> returns the empty list and
  no error.
\<close>

theorem processINET_unreadable_or_header_only:
  "(fs fname = Inl err \<longrightarrow> processINET fs fname kind = ([], Some (ReadFailed err fname)))
   \<and> (CHR 0x0A \<notin> set hdr \<longrightarrow> fs fname = Inr hdr \<or> fs fname = Inr (hdr @ [CHR 0x0A]) \<longrightarrow>
        processINET fs fname kind = ([], None))"
proof (intro conjI impI)
  assume "fs fname = Inl err"
  then show "processINET fs fname kind = ([], Some (ReadFailed err fname))"
    by (simp add: processINET_def)
next
  assume nl: "CHR 0x0A \<notin> set hdr"
    and "fs fname = Inr hdr \<or> fs fname = Inr (hdr @ [CHR 0x0A])"
  then consider "fs fname = Inr hdr" | "fs fname = Inr (hdr @ [CHR 0x0A])"
    by blast
  then show "processINET fs fname kind = ([], None)"
  proof cases
    case 1
    then show ?thesis
      using nl by (simp add: processINET_def Split_no_sep)
  next
    case 2
    have "Split (CHR 0x0A) (hdr @ CHR 0x0A # []) = [hdr, []]"
      using nl by (simp add: Split_append)
    then show ?thesis
      using 2 by (simp add: processINET_def Fields_def)
  qed
qed

theorem processINET_unreadable_or_header_only_witness:
  "processINET (\<lambda>p. Inl ''no such file or directory'') ''/proc/7/tcp''
     \<lparr>family = ''inet'', sockType = ''tcp'', filename = ''tcp''\<rparr>
     = ([], Some (ReadFailed ''no such file or directory'' ''/proc/7/tcp''))
   \<and> CHR 0x0A \<notin> set ''sl local_address rem_address st''
   \<and> processINET (\<lambda>p. Inr (''sl local_address rem_address st'' @ [CHR 0x0A])) ''/proc/7/tcp''
       \<lparr>family = ''inet'', sockType = ''tcp'', filename = ''tcp''\<rparr> = ([], None)
   \<and> processINET (\<lambda>p. Inr ''sl local_address rem_address st'') ''/proc/7/tcp''
       \<lparr>family = ''inet'', sockType = ''tcp'', filename = ''tcp''\<rparr> = ([], None)"
proof -
  let ?kind = "\<lparr>family = ''inet'', sockType = ''tcp'', filename = ''tcp''\<rparr>"
  let ?hdr = "''sl local_address rem_address st''"
  have nl: "CHR 0x0A \<notin> set ?hdr" by simp
  have 1: "processINET (\<lambda>p. Inl ''no such file or directory'') ''/proc/7/tcp'' ?kind
     = ([], Some (ReadFailed ''no such file or directory'' ''/proc/7/tcp''))"
    using processINET_unreadable_or_header_only[of "\<lambda>p. Inl ''no such file or directory''"
        "''/proc/7/tcp''" "''no such file or directory''" ?kind "[]"]
    by blast
  have 2: "processINET (\<lambda>p. Inr (?hdr @ [CHR 0x0A])) ''/proc/7/tcp'' ?kind = ([], None)"
    using processINET_unreadable_or_header_only[of "\<lambda>p. Inr (?hdr @ [CHR 0x0A])"
        "''/proc/7/tcp''" "[]" ?kind ?hdr] nl
    by blast
  have 3: "processINET (\<lambda>p. Inr ?hdr) ''/proc/7/tcp'' ?kind = ([], None)"
    using processINET_unreadable_or_header_only[of "\<lambda>p. Inr ?hdr"
        "''/proc/7/tcp''" "[]" ?kind ?hdr] nl
    by blast
  from 1 nl 2 3 show ?thesis by (intro conjI)
qed

lemma kindsLoop_collects:
  "kindsLoop fs root pid ks out result =
     (out @ concat (map fst (filter (\<lambda>r. snd r = None)
              (map (\<lambda>k. processINET fs (filepath_Join [root, Itoa pid, filename k]) k) ks))),
      result @ List.map_filter snd
              (map (\<lambda>k. processINET fs (filepath_Join [root, Itoa pid, filename k]) k) ks))"
proof (induction ks arbitrary: out result)
  case Nil
  then show ?case by (simp add: List.map_filter_simps)
next
  case (Cons k ks)
  obtain connections err where r: "processINET fs (filepath_Join [root, Itoa pid, filename k]) k = (connections, err)"
    by (cases "processINET fs (filepath_Join [root, Itoa pid, filename k]) k")
  show ?case
  proof (cases err)
    case None
    then show ?thesis
      using r Cons.IH by (simp add: List.map_filter_simps)
  next
    case (Some e)
    then show ?thesis
      using r Cons.IH by (simp add: List.map_filter_simps)
  qed
qed

text \<open>
  C7. \<open>GetConnections\<close> parses the table of every registered kind, under the root
  \<open>/proc\<close> when none is given. It returns the connections of the kinds that parsed
  without error, in the order of the kinds, and the errors of the kinds that failed
  gathered in one error, or no error when no kind failed.
\<close>

theorem GetConnections_collects_all_kinds:
  "GetConnections fs root pid =
     (let root' = (if root = [] then ''/proc'' else root);
          rs = map (\<lambda>k. processINET fs (filepath_Join [root', Itoa pid, filename k]) k)
                 connectionKindTypes;
          errs = List.map_filter snd rs
      in (concat (map fst (filter (\<lambda>r. snd r = None) rs)),
          if errs = [] then None else Some (MultiError errs)))
   \<and> GetConnections fs root pid =
     (let root' = (if root = [] then ''/proc'' else root);
          tcp = processINET fs (filepath_Join [root', Itoa pid, ''tcp''])
                  \<lparr>family = ''inet'', sockType = ''tcp'', filename = ''tcp''\<rparr>;
          udp = processINET fs (filepath_Join [root', Itoa pid, ''udp''])
                  \<lparr>family = ''inet'', sockType = ''udp'', filename = ''udp''\<rparr>
      in (case (snd tcp, snd udp) of
            (None, None) \<Rightarrow> (fst tcp @ fst udp, None)
          | (None, Some e) \<Rightarrow> (fst tcp, Some (MultiError [e]))
          | (Some e, None) \<Rightarrow> (fst udp, Some (MultiError [e]))
          | (Some e, Some e') \<Rightarrow> ([], Some (MultiError [e, e']))))"
proof
  show all: "GetConnections fs root pid =
     (let root' = (if root = [] then ''/proc'' else root);
          rs = map (\<lambda>k. processINET fs (filepath_Join [root', Itoa pid, filename k]) k)
                 connectionKindTypes;
          errs = List.map_filter snd rs
      in (concat (map fst (filter (\<lambda>r. snd r = None) rs)),
          if errs = [] then None else Some (MultiError errs)))"
    by (simp add: GetConnections_def kindsLoop_collects NilOrError_def Let_def)
  show "GetConnections fs root pid =
     (let root' = (if root = [] then ''/proc'' else root);
          tcp = processINET fs (filepath_Join [root', Itoa pid, ''tcp''])
                  \<lparr>family = ''inet'', sockType = ''tcp'', filename = ''tcp''\<rparr>;
          udp = processINET fs (filepath_Join [root', Itoa pid, ''udp''])
                  \<lparr>family = ''inet'', sockType = ''udp'', filename = ''udp''\<rparr>
      in (case (snd tcp, snd udp) of
            (None, None) \<Rightarrow> (fst tcp @ fst udp, None)
          | (None, Some e) \<Rightarrow> (fst tcp, Some (MultiError [e]))
          | (Some e, None) \<Rightarrow> (fst udp, Some (MultiError [e]))
          | (Some e, Some e') \<Rightarrow> ([], Some (MultiError [e, e']))))"
    unfolding all
    by (simp add: connectionKindTypes_def Let_def List.map_filter_simps split: option.splits)
qed

theorem GetConnections_collects_all_kinds_witness:
  "GetConnections
     (\<lambda>p. if p = ''/proc/7/tcp''
           then Inr (''sl local_address rem_address st tx_queue rx_queue tr tm->when retrnsmt uid''
               @ [CHR 0x0A] @
               ''0: 0100007F:1F90 00000000:0000 0A 00000000:00000000 00:00000000 00000000 0 0 12345'')
           else Inl ''no such file or directory'')
     [] 7
   = ([\<lparr>Family = ''inet'', Type = ''tcp'', LocalAddress = ''127.0.0.1:8080'',
        RemoteAddess = ''0.0.0.0:0'', Status = ''LISTEN''\<rparr>],
      Some (MultiError [ReadFailed ''no such file or directory'' ''/proc/7/udp'']))"
proof -
  let ?fs = "(\<lambda>p. if p = ''/proc/7/tcp''
           then Inr (''sl local_address rem_address st tx_queue rx_queue tr tm->when retrnsmt uid''
               @ [CHR 0x0A] @
               ''0: 0100007F:1F90 00000000:0000 0A 00000000:00000000 00:00000000 00000000 0 0 12345'')
           else Inl ''no such file or directory'') :: file_system"
  have tcp_path: "filepath_Join [''/proc'', Itoa 7, ''tcp''] = ''/proc/7/tcp''"
    by (simp add: filepath_Join_def Clean_def Itoa_def formatDec.simps)
  have udp_path: "filepath_Join [''/proc'', Itoa 7, ''udp''] = ''/proc/7/udp''"
    by (simp add: filepath_Join_def Clean_def Itoa_def formatDec.simps)
  have tcp: "processINET ?fs ''/proc/7/tcp'' \<lparr>family = ''inet'', sockType = ''tcp'', filename = ''tcp''\<rparr>
      = ([\<lparr>Family = ''inet'', Type = ''tcp'', LocalAddress = ''127.0.0.1:8080'',
           RemoteAddess = ''0.0.0.0:0'', Status = ''LISTEN''\<rparr>], None)"
    by (simp add: processINET_def Fields_def spaceWidth_def decodeAddress_def ParseInt_def
        fromHexChar_def reverse_eq_rev IP_String_def To4_def Itoa_def formatDec.simps
        rowStatus_def TCPStatuses_def)
  have udp: "processINET ?fs ''/proc/7/udp'' \<lparr>family = ''inet'', sockType = ''udp'', filename = ''udp''\<rparr>
      = ([], Some (ReadFailed ''no such file or directory'' ''/proc/7/udp''))"
    by (simp add: processINET_def)
  show ?thesis
    using GetConnections_collects_all_kinds[of ?fs "[]" 7, THEN conjunct2]
    by (simp only: Let_def if_True refl tcp_path udp_path tcp udp fst_conv snd_conv
        prod.case option.case append_Nil2)
qed

section \<open>Facts about the connection map\<close>







section \<open>Claims about collecting\<close>



section \<open>The process IDs of a container\<close>

text \<open>
  C9. The claim wants no process ID and no error for a negative process ID, and the
  process ID in the returned list otherwise. \<open>GetPids\<close> compares the other way round: for
  the container \<open>docker://abc\<close>, inspected without error, a state with the process ID
  1234 gives the empty list, and a state with the process ID -1 gives the list that holds
  -1; neither call returns an error.
\<close>

theorem GetPids_comparison_reversed:
  "GetPids (\<lambda>c. if c = ''abc'' then Inr \<lparr>State = Some \<lparr>Pid = 1234\<rparr>\<rparr>
                 else Inl ''no such container'') ''docker://abc'' = ([], None)
   \<and> GetPids (\<lambda>c. if c = ''abc'' then Inr \<lparr>State = Some \<lparr>Pid = - 1\<rparr>\<rparr>
                   else Inl ''no such container'') ''docker://abc'' = ([- 1], None)"
  by (simp add: GetPids_def HasPrefix_def TrimPrefix_def mobyPrefix_def)

end
